theory Spec2Isabelle
  imports Main
begin

section \<open>Text primitives of the host language\<close>

text \<open>
  The application is one Python script, \<^verbatim>\<open>app.py\<close>. Its texts are Python \<^verbatim>\<open>str\<close> values;
  they are modelled as \<^typ>\<open>string\<close>, so a character is a code point in the range 0..255.
  On that range \<^verbatim>\<open>str.isspace\<close> and the regular-expression class \<^verbatim>\<open>\s\<close> hold for the
  code points 9..13, 28..32, 133 and 160, and the class \<^verbatim>\<open>\d\<close> holds for 48..57.
  Integers are unbounded, as Python's are. An exception is a value of \<open>py_error\<close>; the only
  one the script can raise on its own is the \<^verbatim>\<open>ValueError\<close> of \<^verbatim>\<open>int\<close>.
\<close>

datatype py_error = ValueError

definition is_space :: "char \<Rightarrow> bool" where
  "is_space c =
     (let n = (of_char c :: nat)
      in (9 \<le> n \<and> n \<le> 13) \<or> (28 \<le> n \<and> n \<le> 32) \<or> n = 133 \<or> n = 160)"

definition is_digit :: "char \<Rightarrow> bool" where
  "is_digit c = (let n = (of_char c :: nat) in 48 \<le> n \<and> n \<le> 57)"

definition lstrip :: "string \<Rightarrow> string" where
  "lstrip s = dropWhile is_space s"

definition rstrip :: "string \<Rightarrow> string" where
  "rstrip s = rev (dropWhile is_space (rev s))"

text \<open>\<^verbatim>\<open>s.strip()\<close>: whitespace is removed at both ends and nowhere else.\<close>

definition strip :: "string \<Rightarrow> string" where
  "strip s = rstrip (lstrip s)"

text \<open>The number that a run of decimal digits denotes.\<close>

definition digit_value :: "char \<Rightarrow> int" where
  "digit_value c = int (of_char c) - 48"

definition decimal_value :: "string \<Rightarrow> int" where
  "decimal_value ds = foldl (\<lambda>acc c. 10 * acc + digit_value c) 0 ds"

text \<open>
  \<^verbatim>\<open>int(s)\<close>. The interpreter refuses to convert a text of more than
  \<^verbatim>\<open>sys.get_int_max_str_digits()\<close> digits, 4300 unless the deployment changes it; leading
  zeros count. It raises \<^verbatim>\<open>ValueError\<close> then, as it does for a text that is no number. The
  script calls \<^verbatim>\<open>int\<close> on a non-empty run of digits only, so the signs, underscores and
  surrounding whitespace that \<^verbatim>\<open>int\<close> also accepts are not modelled.
\<close>

definition int_max_str_digits :: nat where
  "int_max_str_digits = 4300"

definition int_of_str :: "string \<Rightarrow> py_error + int" where
  "int_of_str s =
     (if s = [] \<or> \<not> list_all is_digit s then Inl ValueError
      else if length s > int_max_str_digits then Inl ValueError
      else Inr (decimal_value s))"

text \<open>\<^verbatim>\<open>sep.join(xs)\<close>.\<close>

fun join :: "string \<Rightarrow> string list \<Rightarrow> string" where
  "join sep [] = []"
| "join sep [x] = x"
| "join sep (x # y # ys) = x @ sep @ join sep (y # ys)"

text \<open>\<^verbatim>\<open>pat in s\<close> for two texts.\<close>

fun contains :: "string \<Rightarrow> string \<Rightarrow> bool" where
  "contains pat [] = (pat = [])"
| "contains pat (c # cs) = (take (length pat) (c # cs) = pat \<or> contains pat cs)"

section \<open>What the page shows and which outside calls it makes\<close>

text \<open>
  The messages the script shows with \<^verbatim>\<open>st.error\<close>, \<^verbatim>\<open>st.warning\<close>, \<^verbatim>\<open>st.success\<close> and
  \<^verbatim>\<open>st.info\<close> are recorded in the order they are issued, together with a mark for each
  call of the PDF extraction and of the text-generation service. Layout, spinners and the
  rendering of results are not recorded.
\<close>

datatype event =
    Error string
  | Warning string
  | Success string
  | Info string
  | Extract_call string
  | Api_call string

section \<open>Response interpreter: \<^verbatim>\<open>parse_ats_score\<close>\<close>

text \<open>
  \<^verbatim>\<open>re.match(r"Score:\s*(\d+)", response_text)\<close> is anchored at the start of the text. It
  reads the six characters \<^verbatim>\<open>Score:\<close>, then the longest run of whitespace, then the
  longest run of digits, which must not be empty. Giving back whitespace can never help the
  digits to match, since no character is both; so the greedy match is the only one.
  \<open>group0\<close> is the matched prefix and \<open>group1\<close> the digits.
\<close>

record re_match =
  group0 :: string
  group1 :: string

definition re_match_score :: "string \<Rightarrow> re_match option" where
  "re_match_score text =
     (if take 6 text = ''Score:'' then
        (let rest = drop 6 text;
             ws = takeWhile is_space rest;
             ds = takeWhile is_digit (dropWhile is_space rest)
         in if ds = [] then None
            else Some \<lparr>group0 = ''Score:'' @ ws @ ds, group1 = ds\<rparr>)
      else None)"

text \<open>
  The function has no \<^verbatim>\<open>try\<close>: when \<^verbatim>\<open>int(match.group(1))\<close> raises, the exception leaves
  the function (\<open>Inl\<close>), before the explanation is computed. Otherwise it returns the pair of
  score and explanation, with the warning it has shown, if any (\<open>Inr\<close>).
\<close>

definition parse_ats_score ::
  "string option \<Rightarrow> py_error + ((int \<times> string) \<times> event list)" where
  "parse_ats_score response_text =
     (case response_text of
        None \<Rightarrow> Inr ((0, ''Error receiving response.''), [])
      | Some text \<Rightarrow>
          (case re_match_score text of
             Some m \<Rightarrow>
               (case int_of_str (group1 m) of
                  Inl e \<Rightarrow> Inl e
                | Inr score \<Rightarrow>
                    (let explanation = strip (drop (length (group0 m)) text)
                     in Inr ((min 100 (max 0 score), explanation), [])))
           | None \<Rightarrow>
               Inr ((0, text), [Warning ''Could not parse ATS score from the response.''])))"

text \<open>
  The shape of a leading score line in words: the text is \<^verbatim>\<open>Score:\<close>, a run of whitespace,
  a non-empty run of digits, and anything after that.
\<close>

definition leading_score_line :: "string \<Rightarrow> bool" where
  "leading_score_line text =
     (\<exists>ws ds rest. text = ''Score:'' @ ws @ ds @ rest \<and> list_all is_space ws
        \<and> ds \<noteq> [] \<and> list_all is_digit ds)"

section \<open>Document ingestor: \<^verbatim>\<open>extract_text_from_pdf\<close>\<close>

text \<open>
  The PDF library is outside the program. What it does with an uploaded file is part of the
  input: reading the bytes and opening them either raises, with a message, or gives a
  document, a sequence of pages; \<^verbatim>\<open>page.get_text()\<close> either gives the text of a page or
  raises.
\<close>

datatype page = Page_text string | Page_fails string

datatype pdf = Pdf_fails string | Pdf_doc "page list"

record uploaded_file =
  name :: string
  pdf :: pdf

text \<open>
  The loop \<^verbatim>\<open>for page in doc: full_text += page.get_text() + "\n\n"\<close>, from the text
  accumulated so far; \<open>Inl\<close> carries the message of the exception that ends it.
\<close>

fun read_pages :: "string \<Rightarrow> page list \<Rightarrow> string + string" where
  "read_pages full_text [] = Inr full_text"
| "read_pages full_text (Page_text t # ps) = read_pages (full_text @ t @ ''\<newline>\<newline>'') ps"
| "read_pages full_text (Page_fails e # ps) = Inl e"

definition extract_text_from_pdf :: "uploaded_file option \<Rightarrow> string \<times> event list" where
  "extract_text_from_pdf uploaded_file =
     (case uploaded_file of
        None \<Rightarrow> ([], [])
      | Some f \<Rightarrow>
          (case pdf f of
             Pdf_fails e \<Rightarrow> ([], [Error (''Error extracting PDF text: '' @ e)])
           | Pdf_doc doc \<Rightarrow>
               (case read_pages [] doc of
                  Inl e \<Rightarrow> ([], [Error (''Error extracting PDF text: '' @ e)])
                | Inr full_text \<Rightarrow> (strip full_text, []))))"

section \<open>API gateway: \<^verbatim>\<open>call_gemini_api\<close>\<close>

text \<open>
  The text-generation service is outside the program too. \<open>generate_content\<close> says, for
  each prompt, which branch of \<^verbatim>\<open>call_gemini_api\<close> the answer takes: a response with a
  text, a response without a text whose block reason is set, any other response, or an
  exception with its message.
\<close>

datatype gemini_outcome =
    Has_text string
  | Blocked string
  | No_text
  | Raised string

record env =
  API_KEY :: "string option"
  generate_content :: "string \<Rightarrow> gemini_outcome"

text \<open>Python's truth value of a text that may be \<^verbatim>\<open>None\<close>.\<close>

definition truthy :: "string option \<Rightarrow> bool" where
  "truthy s = (case s of None \<Rightarrow> False | Some t \<Rightarrow> t \<noteq> [])"

definition call_gemini_api :: "env \<Rightarrow> string \<Rightarrow> string option \<times> event list" where
  "call_gemini_api env prompt =
     (if \<not> truthy (API_KEY env) then (None, [Error ''Gemini API Key not configured.''])
      else
        (case generate_content env prompt of
           Has_text t \<Rightarrow> (Some t, [Api_call prompt])
         | Blocked reason \<Rightarrow>
             (Some (''*API call blocked: '' @ reason @ ''*''),
              [Api_call prompt, Warning (''API call blocked: '' @ reason)])
         | No_text \<Rightarrow>
             (Some ''*Received no valid response from the AI.*'',
              [Api_call prompt,
               Warning ''Received an unexpected response structure from Gemini.''])
         | Raised e \<Rightarrow>
             (None,
              [Api_call prompt, Error (''Gemini API Error: '' @ e)] @
              (if contains ''API key not valid'' e
               then [Error ''Please check if your Gemini API Key is correct and valid.'']
               else []))))"

section \<open>Session state\<close>

record chat_message =
  role :: string
  content :: string

record session_state =
  job_description :: string
  resume_text :: string
  analysis_result :: string
  ats_score :: int
  chat_history :: "chat_message list"
  pdf_processed :: bool
  processed_file_name :: "string option"

text \<open>
  What a piece of the script leaves behind: it runs to its end (\<open>Inr\<close>, with the session
  state and the messages shown), or an exception leaves it (\<open>Inl\<close>, with the exception and
  the session state and messages at that point). The framework ends the run of the script
  at an uncaught exception; the session state written so far stays.
\<close>

type_synonym handler_result =
  "(py_error \<times> session_state \<times> event list) + (session_state \<times> event list)"

definition state_of :: "handler_result \<Rightarrow> session_state" where
  "state_of r = (case r of Inl (e, st, ev) \<Rightarrow> st | Inr (st, ev) \<Rightarrow> st)"

definition events_of :: "handler_result \<Rightarrow> event list" where
  "events_of r = (case r of Inl (e, st, ev) \<Rightarrow> ev | Inr (st, ev) \<Rightarrow> ev)"

text \<open>
  The state after the block that initialises the session. \<open>processed_file_name\<close> is not
  set there; \<^verbatim>\<open>st.session_state.get("processed_file_name")\<close> is \<^verbatim>\<open>None\<close> then.
\<close>

definition initial_state :: session_state where
  "initial_state =
     \<lparr>job_description = [], resume_text = [], analysis_result = [], ats_score = 0,
      chat_history = [], pdf_processed = False, processed_file_name = None\<rparr>"

section \<open>Upload of a resume\<close>

definition quoted :: "string \<Rightarrow> string" where
  "quoted s = [CHR 0x27] @ s @ [CHR 0x27]"

text \<open>
  \<^verbatim>\<open>not st.session_state.get("processed_file_name") or
  st.session_state.processed_file_name != uploaded_file.name\<close>
\<close>

definition is_new_file :: "session_state \<Rightarrow> uploaded_file \<Rightarrow> bool" where
  "is_new_file st f = (\<not> truthy (processed_file_name st) \<or> processed_file_name st \<noteq> Some (name f))"

definition process_upload :: "session_state \<Rightarrow> uploaded_file option \<Rightarrow> session_state \<times> event list" where
  "process_upload st uploaded_file =
     (case uploaded_file of
        None \<Rightarrow> (st, [])
      | Some f \<Rightarrow>
          (if is_new_file st f then
             (let (extracted_text, ev) = extract_text_from_pdf (Some f)
              in if extracted_text \<noteq> [] then
                   (st\<lparr>resume_text := extracted_text,
                       pdf_processed := True,
                       processed_file_name := Some (name f),
                       analysis_result := [],
                       ats_score := 0,
                       chat_history := []\<rparr>,
                    [Extract_call (name f)] @ ev @
                    [Success (''Successfully extracted text from '' @ quoted (name f)),
                     Info (''Current resume: '' @ quoted (name f))])
                 else
                   (st\<lparr>pdf_processed := False, processed_file_name := None\<rparr>,
                    [Extract_call (name f)] @ ev @
                    [Info (''Current resume: '' @ quoted (name f))]))
           else (st, [Info (''Current resume: '' @ quoted (name f))])))"

section \<open>Prompt builder\<close>

text \<open>The five templates, with the values the script interpolates as arguments.\<close>

definition summary_prompt :: "string \<Rightarrow> string" where
  "summary_prompt resume =
     ''Provide a concise summary (2-3 sentences) highlighting the key qualifications and experience from the following resume text:''
     @ ''\<newline>\<newline>Resume Text:\<newline>---\<newline>'' @ resume @ ''\<newline>---''"

definition improve_prompt :: "string \<Rightarrow> string" where
  "improve_prompt resume =
     ''Analyze the following resume text and provide 3-5 specific, actionable suggestions for improvement. ''
     @ ''Format the suggestions clearly using bullet points. ''
     @ ''Focus on areas like skills presentation, quantifying achievements, clarity, and structure. ''
     @ ''Mention how these improvements could better align with typical job requirements.''
     @ ''\<newline>\<newline>Resume Text:\<newline>---\<newline>'' @ resume @ ''\<newline>---''"

definition keywords_prompt :: "string \<Rightarrow> string \<Rightarrow> string" where
  "keywords_prompt jd resume =
     ''Compare the following resume text against the job description. ''
     @ ''Identify and list key skills, technologies, or qualifications mentioned in the job description ''
     @ ''that are either missing or significantly underrepresented in the resume. Format as a list.''
     @ ''\<newline>\<newline>Job Description:\<newline>---\<newline>'' @ jd @ ''\<newline>---''
     @ ''\<newline>\<newline>Resume Text:\<newline>---\<newline>'' @ resume @ ''\<newline>---''"

definition match_prompt :: "string \<Rightarrow> string \<Rightarrow> string" where
  "match_prompt jd resume =
     ''Analyze the alignment between the resume and job description. ''
     @ ''Consider keywords, skills, experience relevance. ''
     @ ''Provide an estimated percentage match score (integer 0-100).\<newline>''
     @ ''**Output Format:** Start the response *only* with '' @ [CHR 0x22] @ ''Score: [percentage]'' @ [CHR 0x22]
     @ '' on the first line, followed by a brief explanation on subsequent lines. Example:\<newline>''
     @ ''Score: 75\<newline>The resume shows good alignment...''
     @ ''\<newline>\<newline>Job Description:\<newline>---\<newline>'' @ jd @ ''\<newline>---''
     @ ''\<newline>\<newline>Resume Text:\<newline>---\<newline>'' @ resume @ ''\<newline>---''"

definition chat_prompt :: "string \<Rightarrow> string \<Rightarrow> string \<Rightarrow> string \<Rightarrow> string" where
  "chat_prompt jd resume history_context prompt =
     ''You are a helpful AI assistant analyzing a resume against a job description.\<newline>''
     @ ''Current Job Description Context:\<newline>---\<newline>''
     @ (if jd \<noteq> [] then jd else ''N/A'') @ ''\<newline>---\<newline>''
     @ ''Full Resume Text:\<newline>---\<newline>'' @ resume @ ''\<newline>---\<newline>''
     @ ''Previous Conversation (last few messages):\<newline>'' @ history_context @ ''\<newline>''
     @ ''User Query: '' @ prompt @ ''\<newline>\<newline>''
     @ ''Provide a helpful and relevant response based on the resume and the conversation context, ''
     @ ''using Markdown formatting where appropriate (like lists or bold text).''"

section \<open>The four analysis buttons\<close>

text \<open>
  Each handler is the body run when its button has been clicked. Only the match button
  can be left by an exception, the one of \<^verbatim>\<open>parse_ats_score\<close>; this happens at the call,
  before the score and the result are assigned.
\<close>

definition summary_btn :: "env \<Rightarrow> session_state \<Rightarrow> session_state \<times> event list" where
  "summary_btn env st =
     (if resume_text st \<noteq> [] then
        (let (result, ev) = call_gemini_api env (summary_prompt (resume_text st))
         in case result of
              Some r \<Rightarrow> (st\<lparr>analysis_result := r, ats_score := 0\<rparr>, ev)
            | None \<Rightarrow> (st, ev))
      else (st, [Warning ''Please upload and process a resume first.'']))"

definition improve_btn :: "env \<Rightarrow> session_state \<Rightarrow> session_state \<times> event list" where
  "improve_btn env st =
     (if resume_text st \<noteq> [] then
        (let (result, ev) = call_gemini_api env (improve_prompt (resume_text st))
         in case result of
              Some r \<Rightarrow> (st\<lparr>analysis_result := r, ats_score := 0\<rparr>, ev)
            | None \<Rightarrow> (st, ev))
      else (st, [Warning ''Please upload and process a resume first.'']))"

definition keywords_btn :: "env \<Rightarrow> session_state \<Rightarrow> session_state \<times> event list" where
  "keywords_btn env st =
     (if resume_text st \<noteq> [] \<and> job_description st \<noteq> [] then
        (let (result, ev) =
               call_gemini_api env (keywords_prompt (job_description st) (resume_text st))
         in case result of
              Some r \<Rightarrow> (st\<lparr>analysis_result := r, ats_score := 0\<rparr>, ev)
            | None \<Rightarrow> (st, ev))
      else if job_description st = [] then
        (st, [Warning ''Please enter the Job Description first.''])
      else (st, [Warning ''Please upload and process a resume first.'']))"

definition match_btn :: "env \<Rightarrow> session_state \<Rightarrow> handler_result" where
  "match_btn env st =
     (if resume_text st \<noteq> [] \<and> job_description st \<noteq> [] then
        (let (result, ev) =
               call_gemini_api env (match_prompt (job_description st) (resume_text st))
         in case result of
              Some r \<Rightarrow>
                (case parse_ats_score (Some r) of
                   Inl e \<Rightarrow> Inl (e, st, ev)
                 | Inr ((score, explanation), ev') \<Rightarrow>
                     Inr (st\<lparr>ats_score := score,
                             analysis_result :=
                               ''**ATS Score Explanation:**\<newline>\<newline>'' @ explanation\<rparr>,
                          ev @ ev'))
            | None \<Rightarrow> Inr (st, ev))
      else if job_description st = [] then
        Inr (st, [Warning ''Please enter the Job Description first.''])
      else Inr (st, [Warning ''Please upload and process a resume first.'']))"

section \<open>Chat\<close>

text \<open>One line of the context block: \<^verbatim>\<open>f"{msg['role']}: {msg['content']}"\<close>.\<close>

definition render_message :: "chat_message \<Rightarrow> string" where
  "render_message msg = role msg @ '': '' @ content msg"

text \<open>
  \<^verbatim>\<open>"\n".join([... for msg in st.session_state.chat_history[-5:]])\<close>, as a function of
  the chat history at that point of the script.
\<close>

definition history_context :: "chat_message list \<Rightarrow> string" where
  "history_context h = join ''\<newline>'' (map render_message (drop (length h - 5) h))"

definition chat_error_reply :: string where
  "chat_error_reply = ''*Sorry, I encountered an error processing your request.*''"

text \<open>
  The body run when the chat input has delivered a non-empty text \<open>prompt\<close>. The test
  \<^verbatim>\<open>if response:\<close> fails for \<^verbatim>\<open>None\<close> and for the empty text.
\<close>

definition chat_turn :: "env \<Rightarrow> session_state \<Rightarrow> string \<Rightarrow> session_state \<times> event list" where
  "chat_turn env st prompt =
     (if resume_text st = [] then
        (st, [Warning ''Please upload and process a resume before chatting.''])
      else
        (let st1 = st\<lparr>chat_history :=
                        chat_history st @ [\<lparr>role = ''user'', content = prompt\<rparr>]\<rparr>;
             (response, ev) =
               call_gemini_api env
                 (chat_prompt (job_description st1) (resume_text st1)
                    (history_context (chat_history st1)) prompt)
         in case response of
              Some r \<Rightarrow>
                (if r \<noteq> [] then
                   (st1\<lparr>chat_history :=
                          chat_history st1 @ [\<lparr>role = ''assistant'', content = r\<rparr>]\<rparr>,
                    ev)
                 else
                   (st1\<lparr>chat_history :=
                          chat_history st1 @
                          [\<lparr>role = ''assistant'', content = chat_error_reply\<rparr>]\<rparr>,
                    ev))
            | None \<Rightarrow>
                (st1\<lparr>chat_history :=
                       chat_history st1 @
                       [\<lparr>role = ''assistant'', content = chat_error_reply\<rparr>]\<rparr>,
                 ev)))"

section \<open>One run of the script\<close>

text \<open>
  The framework runs the script from top to bottom at every interaction. The widgets
  deliver: the text of the job-description box, the file in the uploader if there is one,
  which buttons report a click, and the text sent in the chat box if there is one. The
  run starts after the check at the top of the script has found an API key.
\<close>

record widgets =
  jd_input :: string
  pdf_uploader :: "uploaded_file option"
  summary_clicked :: bool
  improve_clicked :: bool
  keywords_clicked :: bool
  match_clicked :: bool
  chat_text :: "string option"

text \<open>
  A clicked button or a sent chat text runs its handler on the state the script has
  reached, unless an exception has already ended the run.
\<close>

definition when_clicked ::
  "bool \<Rightarrow> (session_state \<Rightarrow> handler_result) \<Rightarrow> handler_result \<Rightarrow> handler_result" where
  "when_clicked b handler acc =
     (case acc of
        Inl x \<Rightarrow> Inl x
      | Inr (st, ev) \<Rightarrow>
          (if b then
             (case handler st of
                Inl (e, st', ev') \<Rightarrow> Inl (e, st', ev @ ev')
              | Inr (st', ev') \<Rightarrow> Inr (st', ev @ ev'))
           else Inr (st, ev)))"

definition rerun :: "env \<Rightarrow> session_state \<Rightarrow> widgets \<Rightarrow> handler_result" where
  "rerun env st w =
     (let st0 = st\<lparr>job_description := jd_input w\<rparr>;
          up = process_upload st0 (pdf_uploader w)
      in if pdf_processed (fst up) then
           when_clicked (truthy (chat_text w))
             (\<lambda>s. case chat_text w of
                     Some prompt \<Rightarrow> Inr (chat_turn env s prompt)
                   | None \<Rightarrow> Inr (s, []))
             (when_clicked (match_clicked w) (match_btn env)
               (when_clicked (keywords_clicked w) (\<lambda>s. Inr (keywords_btn env s))
                 (when_clicked (improve_clicked w) (\<lambda>s. Inr (improve_btn env s))
                   (when_clicked (summary_clicked w) (\<lambda>s. Inr (summary_btn env s))
                     (Inr up)))))
         else Inr (fst up, snd up @ [Info ''Upload a PDF resume to get started.'']))"

section \<open>Sample sessions\<close>

text \<open>
  Concrete inputs on which the properties below are run: a session in which a resume
  \<^verbatim>\<open>a.pdf\<close> has been analysed and discussed, four uploads, a chat of twelve messages, a
  service that answers every prompt in the same way, and one that does not.
\<close>

definition analysed_session :: session_state where
  "analysed_session =
     \<lparr>job_description = ''Python developer'', resume_text = ''Jane Doe'',
      analysis_result = ''Strong profile.'', ats_score = 75,
      chat_history = [\<lparr>role = ''user'', content = ''hi''\<rparr>,
                      \<lparr>role = ''assistant'', content = ''Hello''\<rparr>],
      pdf_processed = True, processed_file_name = Some ''a.pdf''\<rparr>"

definition other_resume :: uploaded_file where
  "other_resume = \<lparr>name = ''b.pdf'', pdf = Pdf_doc [Page_text ''John Roe\<newline>'']\<rparr>"

definition scanned_resume :: uploaded_file where
  "scanned_resume = \<lparr>name = ''scan.pdf'', pdf = Pdf_doc [Page_text ''\<newline>'']\<rparr>"

definition broken_resume :: uploaded_file where
  "broken_resume = \<lparr>name = ''c.pdf'', pdf = Pdf_fails ''cannot open broken document''\<rparr>"

definition renamed_resume :: uploaded_file where
  "renamed_resume = \<lparr>name = ''a.pdf'', pdf = Pdf_doc [Page_text ''Someone Else\<newline>'']\<rparr>"

definition twelve_messages :: "chat_message list" where
  "twelve_messages =
     [\<lparr>role = ''user'', content = ''m1''\<rparr>, \<lparr>role = ''assistant'', content = ''m2''\<rparr>,
      \<lparr>role = ''user'', content = ''m3''\<rparr>, \<lparr>role = ''assistant'', content = ''m4''\<rparr>,
      \<lparr>role = ''user'', content = ''m5''\<rparr>, \<lparr>role = ''assistant'', content = ''m6''\<rparr>,
      \<lparr>role = ''user'', content = ''m7''\<rparr>, \<lparr>role = ''assistant'', content = ''m8''\<rparr>,
      \<lparr>role = ''user'', content = ''m9''\<rparr>, \<lparr>role = ''assistant'', content = ''m10''\<rparr>,
      \<lparr>role = ''user'', content = ''m11''\<rparr>, \<lparr>role = ''assistant'', content = ''m12''\<rparr>]"

definition answering :: "gemini_outcome \<Rightarrow> env" where
  "answering outcome = \<lparr>API_KEY = Some ''key'', generate_content = (\<lambda>prompt. outcome)\<rparr>"

text \<open>
  A service that answers the prompts of the chat, which begin with \<^verbatim>\<open>You are a\<close>, with the
  empty text, and every other prompt with \<^verbatim>\<open>Fine.\<close>
\<close>

definition silent_in_chat :: env where
  "silent_in_chat =
     \<lparr>API_KEY = Some ''key'',
      generate_content =
        (\<lambda>prompt. if take 9 prompt = ''You are a'' then Has_text [] else Has_text ''Fine.'')\<rparr>"

section \<open>Facts about the text primitives\<close>

lemma digit_not_space: "is_digit c \<Longrightarrow> \<not> is_space c"
  by (auto simp: is_digit_def is_space_def Let_def)

lemma takeWhile_run:
  "list_all P xs \<Longrightarrow> (ys = [] \<or> \<not> P (hd ys)) \<Longrightarrow> takeWhile P (xs @ ys) = xs"
  by (induction xs) (cases ys; simp)+

lemma dropWhile_run:
  "list_all P xs \<Longrightarrow> (ys = [] \<or> \<not> P (hd ys)) \<Longrightarrow> dropWhile P (xs @ ys) = ys"
  by (induction xs) (cases ys; simp)+

lemma take_score_prefix: "take 6 (''Score:'' @ xs) = ''Score:''" "drop 6 (''Score:'' @ xs) = xs"
  by simp_all

text \<open>
  The matcher on a text of the shape \<^verbatim>\<open>Score:\<close>, whitespace, digits, remainder, where the
  remainder does not go on with a digit: the groups are the prefix and the digits.
\<close>

lemma re_match_score_shape:
  assumes ws: "list_all is_space ws" and ne: "ds \<noteq> []" and ds: "list_all is_digit ds"
    and rest: "rest = [] \<or> \<not> is_digit (hd rest)"
  shows "re_match_score (''Score:'' @ ws @ ds @ rest)
           = Some \<lparr>group0 = ''Score:'' @ ws @ ds, group1 = ds\<rparr>"
proof -
  from ne ds have "\<not> is_space (hd (ds @ rest))"
    by (cases ds) (auto dest: digit_not_space)
  then have nsp: "ds @ rest = [] \<or> \<not> is_space (hd (ds @ rest))" by simp
  have tw: "takeWhile is_space (ws @ ds @ rest) = ws"
    using takeWhile_run [OF ws nsp] .
  have dw: "dropWhile is_space (ws @ ds @ rest) = ds @ rest"
    using dropWhile_run [OF ws nsp] .
  have td: "takeWhile is_digit (ds @ rest) = ds"
    using takeWhile_run [OF ds rest] .
  show ?thesis
    unfolding re_match_score_def take_score_prefix Let_def tw dw td
    using ne by simp
qed

text \<open>The matcher succeeds exactly on the texts that have a leading score line.\<close>

lemma re_match_score_iff: "re_match_score text \<noteq> None \<longleftrightarrow> leading_score_line text"
proof
  assume m: "re_match_score text \<noteq> None"
  then have p: "take 6 text = ''Score:''"
    by (auto simp: re_match_score_def split: if_splits)
  define r where "r = drop 6 text"
  define ws where "ws = takeWhile is_space r"
  define ds where "ds = takeWhile is_digit (dropWhile is_space r)"
  define rest where "rest = dropWhile is_digit (dropWhile is_space r)"
  from m p have ne: "ds \<noteq> []"
    by (auto simp: re_match_score_def Let_def ds_def r_def split: if_splits)
  have "text = take 6 text @ r" by (simp add: r_def)
  also have "r = ws @ ds @ rest" by (simp add: ws_def ds_def rest_def)
  finally have "text = ''Score:'' @ ws @ ds @ rest" using p by simp
  moreover have "list_all is_space ws" "list_all is_digit ds"
    by (auto simp: ws_def ds_def list_all_iff dest: set_takeWhileD)
  ultimately show "leading_score_line text"
    unfolding leading_score_line_def using ne by blast
next
  assume "leading_score_line text"
  then obtain ws ds rest where t: "text = ''Score:'' @ ws @ ds @ rest"
    and ws: "list_all is_space ws" and ne: "ds \<noteq> []" and ds: "list_all is_digit ds"
    unfolding leading_score_line_def by blast
  from ne ds have hd: "is_digit (hd ds)" by (cases ds) auto
  then have "\<not> is_space (hd (ds @ rest))" using ne by (simp add: digit_not_space)
  then have nsp: "ds @ rest = [] \<or> \<not> is_space (hd (ds @ rest))" by simp
  have dw: "dropWhile is_space (ws @ ds @ rest) = ds @ rest"
    using dropWhile_run [OF ws nsp] .
  have "takeWhile is_digit (ds @ rest) \<noteq> []"
    using ne hd by (cases ds) auto
  then show "re_match_score text \<noteq> None"
    unfolding t re_match_score_def take_score_prefix Let_def dw by simp
qed

lemma decimal_value_nonneg_aux:
  "list_all is_digit ds \<Longrightarrow> 0 \<le> a \<Longrightarrow> 0 \<le> foldl (\<lambda>acc c. 10 * acc + digit_value c) a ds"
proof (induction ds arbitrary: a)
  case Nil
  then show ?case by simp
next
  case (Cons c cs)
  then have "0 \<le> digit_value c" by (simp add: is_digit_def digit_value_def Let_def)
  with Cons show ?case by simp
qed

lemma decimal_value_nonneg: "list_all is_digit ds \<Longrightarrow> 0 \<le> decimal_value ds"
  unfolding decimal_value_def by (rule decimal_value_nonneg_aux) simp_all

text \<open>\<^verbatim>\<open>int\<close> on a run of digits: within the limit it is the number, beyond it the exception.\<close>

lemma int_of_str_digits:
  "ds \<noteq> [] \<Longrightarrow> list_all is_digit ds \<Longrightarrow> length ds \<le> int_max_str_digits \<Longrightarrow>
     int_of_str ds = Inr (decimal_value ds)"
  by (simp add: int_of_str_def)

lemma int_of_str_too_long:
  "int_max_str_digits < length ds \<Longrightarrow> int_of_str ds = Inl ValueError"
  by (simp add: int_of_str_def)

text \<open>A score line whose run of digits is longer than the limit: the exception.\<close>

lemma parse_ats_score_too_long:
  assumes "list_all is_space ws" and "ds \<noteq> []" and "list_all is_digit ds"
    and "rest = [] \<or> \<not> is_digit (hd rest)"
    and "int_max_str_digits < length ds"
  shows "parse_ats_score (Some (''Score:'' @ ws @ ds @ rest)) = Inl ValueError"
proof -
  have m: "re_match_score (''Score:'' @ ws @ ds @ rest)
              = Some \<lparr>group0 = ''Score:'' @ ws @ ds, group1 = ds\<rparr>"
    using assms(1-4) by (rule re_match_score_shape)
  show ?thesis
    unfolding parse_ats_score_def option.case m
    by (simp add: int_of_str_too_long [OF assms(5)])
qed

lemma nines_are_digits: "list_all is_digit (replicate n (CHR ''9''))"
  by (simp add: list_all_iff is_digit_def)

text \<open>The equations that evaluate the text primitives on a concrete text.\<close>

lemmas text_eval = is_space_def is_digit_def strip_def lstrip_def rstrip_def
  int_of_str_def int_max_str_digits_def decimal_value_def digit_value_def Let_def

section \<open>Properties of the response interpreter\<close>

text \<open>
  Claim C1, as the code has it. A response that begins with \<^verbatim>\<open>Score:\<close>, a run of whitespace
  and the digits of a number \<open>N\<close>, at most 4300 of them (the run of digits is the whole
  number: what follows does not start with a digit), is parsed to the score \<open>N\<close> clamped
  to 0..100, and to the explanation that is the text after the matched prefix with the
  whitespace removed at both of its ends, not only at its left end. The function returns,
  and no warning is issued. \<open>N\<close> is never negative. The response
  \<^verbatim>\<open>"Score: 137\nGreat fit"\<close> gives the score 100 and the explanation \<^verbatim>\<open>"Great fit"\<close>; the
  response \<^verbatim>\<open>"Score: -5\nBad"\<close> is not matched, and gives the score 0 and the whole text.
  The run of whitespace may be empty.
\<close>

theorem parse_ats_score_leading_score:
  assumes "list_all is_space ws" and "ds \<noteq> []" and "list_all is_digit ds"
    and "length ds \<le> int_max_str_digits"
    and "rest = [] \<or> \<not> is_digit (hd rest)"
  shows "parse_ats_score (Some (''Score:'' @ ws @ ds @ rest))
           = Inr ((min 100 (max 0 (decimal_value ds)), strip rest), [])
         \<and> 0 \<le> decimal_value ds
         \<and> parse_ats_score (Some ''Score: 137\<newline>Great fit'') = Inr ((100, ''Great fit''), [])
         \<and> parse_ats_score (Some ''Score: -5\<newline>Bad'')
             = Inr ((0, ''Score: -5\<newline>Bad''),
                    [Warning ''Could not parse ATS score from the response.''])"
proof -
  have m: "re_match_score (''Score:'' @ ws @ ds @ rest)
              = Some \<lparr>group0 = ''Score:'' @ ws @ ds, group1 = ds\<rparr>"
    using assms(1-3,5) by (rule re_match_score_shape)
  have i: "int_of_str ds = Inr (decimal_value ds)"
    using assms(2-4) by (rule int_of_str_digits)
  have "parse_ats_score (Some (''Score:'' @ ws @ ds @ rest))
           = Inr ((min 100 (max 0 (decimal_value ds)), strip rest), [])"
    unfolding parse_ats_score_def option.case m by (simp add: i)
  moreover have "0 \<le> decimal_value ds"
    using assms(3) by (rule decimal_value_nonneg)
  moreover have "parse_ats_score (Some ''Score: 137\<newline>Great fit'') = Inr ((100, ''Great fit''), [])"
    by (simp add: parse_ats_score_def re_match_score_def text_eval)
  moreover have "parse_ats_score (Some ''Score: -5\<newline>Bad'')
             = Inr ((0, ''Score: -5\<newline>Bad''),
                    [Warning ''Could not parse ATS score from the response.''])"
    by (simp add: parse_ats_score_def re_match_score_def text_eval)
  ultimately show ?thesis by blast
qed

theorem parse_ats_score_leading_score_witness:
  "list_all is_space '' '' \<and> ''42'' \<noteq> [] \<and> list_all is_digit ''42''
   \<and> length ''42'' \<le> int_max_str_digits
   \<and> parse_ats_score (Some ''Score: 42\<newline>Solid match.  '') = Inr ((42, ''Solid match.''), [])"
  using parse_ats_score_leading_score [of "'' ''" "''42''" "''\<newline>Solid match.  ''"]
  by (simp add: text_eval)

text \<open>
  Claim C1 as it is worded fails in two places. Where the explanation ends in whitespace:
  for the response \<^verbatim>\<open>"Score: 50\nGood \n"\<close> the explanation is \<^verbatim>\<open>"Good"\<close>, while the text
  after the matched prefix, trimmed at its left end only, is \<^verbatim>\<open>"Good \n"\<close>. And where the
  number is too long for \<^verbatim>\<open>int\<close>: for \<^verbatim>\<open>Score:\<close>, a blank and 4301 times the digit 9 the
  function returns nothing, it is left by a \<^verbatim>\<open>ValueError\<close>.
\<close>

theorem parse_ats_score_left_trim_counterexample:
  "parse_ats_score (Some ''Score: 50\<newline>Good \<newline>'') = Inr ((50, ''Good''), [])
   \<and> parse_ats_score (Some ''Score: 50\<newline>Good \<newline>'')
       \<noteq> Inr ((min 100 (max 0 50), lstrip ''\<newline>Good \<newline>''), [])
   \<and> parse_ats_score (Some (''Score: '' @ replicate 4301 (CHR ''9''))) = Inl ValueError"
proof -
  have "parse_ats_score (Some ''Score: 50\<newline>Good \<newline>'') = Inr ((50, ''Good''), [])"
    by (simp add: parse_ats_score_def re_match_score_def text_eval)
  moreover have "lstrip ''\<newline>Good \<newline>'' \<noteq> ''Good''"
    by (simp add: text_eval)
  moreover have "parse_ats_score (Some (''Score:'' @ '' '' @ replicate 4301 (CHR ''9'') @ []))
                   = Inl ValueError"
    by (rule parse_ats_score_too_long)
       (simp_all add: nines_are_digits is_space_def int_max_str_digits_def)
  ultimately show ?thesis by simp
qed

text \<open>
  Claim C2. A response without a leading score line is parsed to the score 0 and to the
  whole response, unchanged, as the explanation, and the warning that the score could not
  be parsed is issued; the function returns. For an absent response the score is 0 and the explanation is the
  fixed text \<^verbatim>\<open>Error receiving response.\<close>
\<close>

theorem parse_ats_score_no_score_line:
  "(\<not> leading_score_line text \<longrightarrow>
      parse_ats_score (Some text)
        = Inr ((0, text), [Warning ''Could not parse ATS score from the response.'']))
   \<and> parse_ats_score None = Inr ((0, ''Error receiving response.''), [])"
  using re_match_score_iff [of "text"] by (auto simp: parse_ats_score_def)

theorem parse_ats_score_no_score_line_witness:
  "\<not> leading_score_line ''The resume fits well. Score: 80''
   \<and> parse_ats_score (Some ''The resume fits well. Score: 80'')
        = Inr ((0, ''The resume fits well. Score: 80''),
               [Warning ''Could not parse ATS score from the response.''])"
proof -
  have "re_match_score ''The resume fits well. Score: 80'' = None"
    by (simp add: re_match_score_def)
  then have "\<not> leading_score_line ''The resume fits well. Score: 80''"
    using re_match_score_iff by blast
  then show ?thesis
    using parse_ats_score_no_score_line [of "''The resume fits well. Score: 80''"] by blast
qed

section \<open>Facts about trimming and the page loop\<close>

lemma rstrip_append_spaces:
  assumes "list_all is_space ws"
  shows "rstrip (s @ ws) = rstrip s"
proof -
  have "\<And>c. c \<in> set (rev ws) \<Longrightarrow> is_space c"
    using assms by (simp add: list_all_iff)
  then have "dropWhile is_space (rev ws @ rev s) = dropWhile is_space (rev s)"
    by (rule dropWhile_append2)
  then show ?thesis by (simp add: rstrip_def)
qed

lemma lstrip_append_spaces:
  "list_all is_space ws \<Longrightarrow> lstrip (s @ ws) = (if list_all is_space s then [] else lstrip s @ ws)"
  by (auto simp: lstrip_def list_all_iff dropWhile_append1 dropWhile_append2)

lemma lstrip_all_spaces: "list_all is_space s \<Longrightarrow> lstrip s = []"
  by (simp add: lstrip_def list_all_iff)

lemma strip_append_spaces:
  assumes "list_all is_space ws"
  shows "strip (s @ ws) = strip s"
proof (cases "list_all is_space s")
  case True
  with assms show ?thesis
    by (simp add: strip_def lstrip_append_spaces lstrip_all_spaces)
next
  case False
  with assms show ?thesis
    by (simp add: strip_def lstrip_append_spaces rstrip_append_spaces)
qed

lemma lstrip_decomp: "s = takeWhile is_space s @ lstrip s"
  by (simp add: lstrip_def)

lemma rstrip_decomp: "s = rstrip s @ rev (takeWhile is_space (rev s))"
proof -
  have "rev (takeWhile is_space (rev s) @ dropWhile is_space (rev s)) = rev (rev s)"
    by (simp only: takeWhile_dropWhile_id)
  then have "rev (dropWhile is_space (rev s)) @ rev (takeWhile is_space (rev s)) = s"
    by (simp only: rev_append rev_rev_ident)
  then show ?thesis by (simp only: rstrip_def)
qed

lemma strip_decomp:
  "\<exists>pre post. s = pre @ strip s @ post \<and> list_all is_space pre \<and> list_all is_space post"
proof -
  let ?pre = "takeWhile is_space s" and ?post = "rev (takeWhile is_space (rev (lstrip s)))"
  have "s = ?pre @ lstrip s" by (rule lstrip_decomp)
  also have "lstrip s = strip s @ ?post"
    unfolding strip_def by (rule rstrip_decomp)
  finally have "s = ?pre @ strip s @ ?post" .
  moreover have "list_all is_space ?pre" "list_all is_space ?post"
    by (auto simp: list_all_iff dest: set_takeWhileD)
  ultimately show ?thesis by blast
qed

lemma strip_ends:
  "strip s = [] \<or> (\<not> is_space (hd (strip s)) \<and> \<not> is_space (last (strip s)))"
proof (cases "strip s = []")
  case True
  then show ?thesis by simp
next
  case False
  let ?x = "lstrip s"
  have x: "?x = strip s @ rev (takeWhile is_space (rev ?x))"
    unfolding strip_def by (rule rstrip_decomp)
  with False have "?x \<noteq> []" by auto
  then have "\<not> is_space (hd ?x)" unfolding lstrip_def by (rule hd_dropWhile)
  moreover have "hd ?x = hd (strip s)" using False x by (metis hd_append2)
  moreover have "\<not> is_space (last (strip s))"
  proof -
    have ne: "dropWhile is_space (rev ?x) \<noteq> []"
      using False by (simp add: strip_def rstrip_def)
    then have "\<not> is_space (hd (dropWhile is_space (rev ?x)))" by (rule hd_dropWhile)
    then show ?thesis using ne by (simp add: strip_def rstrip_def last_rev)
  qed
  ultimately show ?thesis by simp
qed

lemma read_pages_texts:
  "read_pages acc (map Page_text ts) = Inr (acc @ concat (map (\<lambda>t. t @ ''\<newline>\<newline>'') ts))"
  by (induction ts arbitrary: acc) simp_all

lemma read_pages_fails:
  "read_pages acc (map Page_text ts @ Page_fails e # ps) = Inl e"
  by (induction ts arbitrary: acc) simp_all

lemma concat_sep_join:
  "concat (map (\<lambda>t. t @ sep) ts) = join sep ts @ (if ts = [] then [] else sep)"
  by (induction sep ts rule: join.induct) simp_all

lemma blank_line_spaces: "list_all is_space ''\<newline>\<newline>''"
  by (simp add: is_space_def)

lemma strip_pages: "strip (concat (map (\<lambda>t. t @ ''\<newline>\<newline>'') ts)) = strip (join ''\<newline>\<newline>'' ts)"
proof (cases "ts = []")
  case True
  then show ?thesis by simp
next
  case False
  then have "concat (map (\<lambda>t. t @ ''\<newline>\<newline>'') ts) = join ''\<newline>\<newline>'' ts @ ''\<newline>\<newline>''"
    by (simp only: concat_sep_join if_False)
  then show ?thesis
    using strip_append_spaces [OF blank_line_spaces] by simp
qed

section \<open>Properties of the document ingestor\<close>

text \<open>
  Claim C8. When every page of the document gives its text, the extraction returns the
  texts of the pages in page order, joined with a blank line (two newlines) between
  consecutive pages, and trimmed: the joined text is the result with a run of whitespace
  before it and a run of whitespace after it, so nothing inside is changed, and the result
  neither starts nor ends with whitespace. No message is issued. When opening the file
  fails, or a page fails to give its text, the extraction returns the empty text and
  issues the message \<^verbatim>\<open>Error extracting PDF text:\<close> with the text of the exception; it
  returns normally in all cases.
\<close>

theorem extract_text_from_pdf_pages:
  "(pdf f = Pdf_doc (map Page_text ts) \<longrightarrow>
      extract_text_from_pdf (Some f) = (strip (join ''\<newline>\<newline>'' ts), [])
      \<and> (\<exists>pre post. join ''\<newline>\<newline>'' ts = pre @ strip (join ''\<newline>\<newline>'' ts) @ post
            \<and> list_all is_space pre \<and> list_all is_space post)
      \<and> (strip (join ''\<newline>\<newline>'' ts) = []
           \<or> (\<not> is_space (hd (strip (join ''\<newline>\<newline>'' ts)))
               \<and> \<not> is_space (last (strip (join ''\<newline>\<newline>'' ts))))))
   \<and> (pdf f = Pdf_fails e \<longrightarrow>
        extract_text_from_pdf (Some f) = ([], [Error (''Error extracting PDF text: '' @ e)]))
   \<and> (pdf f = Pdf_doc (map Page_text ts @ Page_fails e # ps) \<longrightarrow>
        extract_text_from_pdf (Some f) = ([], [Error (''Error extracting PDF text: '' @ e)]))"
proof (intro conjI impI)
  assume "pdf f = Pdf_doc (map Page_text ts)"
  then show "extract_text_from_pdf (Some f) = (strip (join ''\<newline>\<newline>'' ts), [])"
    by (simp add: extract_text_from_pdf_def read_pages_texts strip_pages)
next
  show "\<exists>pre post. join ''\<newline>\<newline>'' ts = pre @ strip (join ''\<newline>\<newline>'' ts) @ post
          \<and> list_all is_space pre \<and> list_all is_space post"
    by (rule strip_decomp)
next
  show "strip (join ''\<newline>\<newline>'' ts) = []
          \<or> (\<not> is_space (hd (strip (join ''\<newline>\<newline>'' ts)))
              \<and> \<not> is_space (last (strip (join ''\<newline>\<newline>'' ts))))"
    by (rule strip_ends)
next
  assume "pdf f = Pdf_fails e"
  then show "extract_text_from_pdf (Some f) = ([], [Error (''Error extracting PDF text: '' @ e)])"
    by (simp add: extract_text_from_pdf_def)
next
  assume "pdf f = Pdf_doc (map Page_text ts @ Page_fails e # ps)"
  then show "extract_text_from_pdf (Some f) = ([], [Error (''Error extracting PDF text: '' @ e)])"
    by (simp add: extract_text_from_pdf_def read_pages_fails)
qed

theorem extract_text_from_pdf_pages_witness:
  "extract_text_from_pdf
     (Some \<lparr>name = ''cv.pdf'', pdf = Pdf_doc [Page_text ''  Jane  Doe\<newline>'', Page_text ''Skills: C\<newline>'']\<rparr>)
     = (''Jane  Doe\<newline>\<newline>\<newline>Skills: C'', [])
   \<and> extract_text_from_pdf (Some \<lparr>name = ''cv.pdf'', pdf = Pdf_fails ''cannot open''\<rparr>)
     = ([], [Error ''Error extracting PDF text: cannot open''])"
  using extract_text_from_pdf_pages
      [of "\<lparr>name = ''cv.pdf'', pdf = Pdf_doc [Page_text ''  Jane  Doe\<newline>'', Page_text ''Skills: C\<newline>'']\<rparr>"
          "[''  Jane  Doe\<newline>'', ''Skills: C\<newline>'']" "''x''" "[]"]
    extract_text_from_pdf_pages
      [of "\<lparr>name = ''cv.pdf'', pdf = Pdf_fails ''cannot open''\<rparr>" "[]" "''cannot open''" "[]"]
  by (simp add: text_eval)

section \<open>Properties of the upload\<close>

text \<open>The three ways through the upload handler.\<close>

lemma process_upload_new_ok:
  assumes "is_new_file st f" and "extract_text_from_pdf (Some f) = (t, ev)" and "t \<noteq> []"
  shows "process_upload st (Some f) =
           (st\<lparr>resume_text := t, pdf_processed := True, processed_file_name := Some (name f),
               analysis_result := [], ats_score := 0, chat_history := []\<rparr>,
            [Extract_call (name f)] @ ev @
            [Success (''Successfully extracted text from '' @ quoted (name f)),
             Info (''Current resume: '' @ quoted (name f))])"
  using assms by (simp add: process_upload_def)

lemma process_upload_new_empty:
  assumes "is_new_file st f" and "extract_text_from_pdf (Some f) = ([], ev)"
  shows "process_upload st (Some f) =
           (st\<lparr>pdf_processed := False, processed_file_name := None\<rparr>,
            [Extract_call (name f)] @ ev @ [Info (''Current resume: '' @ quoted (name f))])"
  using assms by (simp add: process_upload_def)

lemma process_upload_same:
  assumes "\<not> is_new_file st f"
  shows "process_upload st (Some f) = (st, [Info (''Current resume: '' @ quoted (name f))])"
  using assms by (simp add: process_upload_def)

lemmas upload_eval = process_upload_def is_new_file_def truthy_def extract_text_from_pdf_def
  quoted_def

text \<open>
  Claim C3, as the code has it. When the uploaded file has another name than the processed
  file and its extraction gives a non-empty text, the upload clears \<open>analysis_result\<close> to
  the empty text, \<open>ats_score\<close> to 0 and \<open>chat_history\<close> to the empty sequence; the extracted
  text becomes the resume text, and the file is marked as the processed one.
\<close>

theorem process_upload_new_file_clears:
  assumes "processed_file_name st \<noteq> Some (name f)"
    and "fst (extract_text_from_pdf (Some f)) \<noteq> []"
  shows "analysis_result (fst (process_upload st (Some f))) = []
         \<and> ats_score (fst (process_upload st (Some f))) = 0
         \<and> chat_history (fst (process_upload st (Some f))) = []
         \<and> resume_text (fst (process_upload st (Some f))) = fst (extract_text_from_pdf (Some f))
         \<and> pdf_processed (fst (process_upload st (Some f)))
         \<and> processed_file_name (fst (process_upload st (Some f))) = Some (name f)"
proof -
  obtain t ev where e: "extract_text_from_pdf (Some f) = (t, ev)"
    by (cases "extract_text_from_pdf (Some f)")
  from assms(1) have new: "is_new_file st f" by (simp add: is_new_file_def)
  from assms(2) e have "t \<noteq> []" by simp
  from process_upload_new_ok [OF new e this] e show ?thesis by simp
qed

theorem process_upload_new_file_clears_witness:
  "processed_file_name analysed_session \<noteq> Some (name other_resume)
   \<and> fst (extract_text_from_pdf (Some other_resume)) \<noteq> []
   \<and> fst (process_upload analysed_session (Some other_resume))
       = \<lparr>job_description = ''Python developer'', resume_text = ''John Roe'',
          analysis_result = [], ats_score = 0, chat_history = [],
          pdf_processed = True, processed_file_name = Some ''b.pdf''\<rparr>"
proof -
  have n: "processed_file_name analysed_session \<noteq> Some (name other_resume)"
    by (simp add: analysed_session_def other_resume_def)
  have e: "fst (extract_text_from_pdf (Some other_resume)) \<noteq> []"
    by (simp add: other_resume_def extract_text_from_pdf_def text_eval)
  have "fst (process_upload analysed_session (Some other_resume))
       = \<lparr>job_description = ''Python developer'', resume_text = ''John Roe'',
          analysis_result = [], ats_score = 0, chat_history = [],
          pdf_processed = True, processed_file_name = Some ''b.pdf''\<rparr>"
    using process_upload_new_file_clears [OF n e]
    by (simp add: analysed_session_def other_resume_def upload_eval text_eval)
  with n e show ?thesis by blast
qed

text \<open>
  Claim C3 as it is worded, for every upload under another name, fails for a file that
  gives no text: after the analysed session receives a one-page scan without text under a
  new name, the analysis, the score 75 and the chat are still there.
\<close>

theorem process_upload_no_text_counterexample:
  "processed_file_name analysed_session \<noteq> Some (name scanned_resume)
   \<and> analysis_result (fst (process_upload analysed_session (Some scanned_resume))) = ''Strong profile.''
   \<and> ats_score (fst (process_upload analysed_session (Some scanned_resume))) = 75
   \<and> chat_history (fst (process_upload analysed_session (Some scanned_resume)))
       = [\<lparr>role = ''user'', content = ''hi''\<rparr>, \<lparr>role = ''assistant'', content = ''Hello''\<rparr>]"
  by (simp add: analysed_session_def scanned_resume_def upload_eval text_eval)

text \<open>
  Claim C7. When the uploaded file carries the name of the processed file, the upload
  extracts nothing and leaves the whole session state as it was, \<open>resume_text\<close>,
  \<open>analysis_result\<close>, \<open>ats_score\<close> and \<open>chat_history\<close> included; it only shows the name of the
  current resume. File names are not empty: the uploader accepts names ending in
  \<^verbatim>\<open>.pdf\<close> only.
\<close>

theorem process_upload_same_name:
  assumes "processed_file_name st = Some (name f)" and "name f \<noteq> []"
  shows "process_upload st (Some f) = (st, [Info (''Current resume: '' @ quoted (name f))])
         \<and> Extract_call (name f) \<notin> set (snd (process_upload st (Some f)))"
proof -
  from assms have "\<not> is_new_file st f" by (simp add: is_new_file_def truthy_def)
  then have "process_upload st (Some f) = (st, [Info (''Current resume: '' @ quoted (name f))])"
    by (rule process_upload_same)
  then show ?thesis by simp
qed

theorem process_upload_same_name_witness:
  "processed_file_name analysed_session = Some (name renamed_resume)
   \<and> name renamed_resume \<noteq> []
   \<and> process_upload analysed_session (Some renamed_resume)
       = (analysed_session, [Info (''Current resume: '' @ [CHR 0x27] @ ''a.pdf'' @ [CHR 0x27])])"
proof -
  have n: "processed_file_name analysed_session = Some (name renamed_resume)"
    by (simp add: analysed_session_def renamed_resume_def)
  have m: "name renamed_resume \<noteq> []" by (simp add: renamed_resume_def)
  from process_upload_same_name [OF n m] n m show ?thesis
    by (simp add: renamed_resume_def quoted_def)
qed

text \<open>
  Claim C9. When a file under another name than the processed one gives the empty text,
  \<open>resume_text\<close>, \<open>analysis_result\<close>, \<open>ats_score\<close> and \<open>chat_history\<close> stay as they were, while
  \<open>pdf_processed\<close> becomes false and \<open>processed_file_name\<close> becomes \<^verbatim>\<open>None\<close>.
\<close>

theorem process_upload_failed_extraction:
  assumes "processed_file_name st \<noteq> Some (name f)"
    and "fst (extract_text_from_pdf (Some f)) = []"
  shows "fst (process_upload st (Some f)) = st\<lparr>pdf_processed := False, processed_file_name := None\<rparr>
         \<and> resume_text (fst (process_upload st (Some f))) = resume_text st
         \<and> analysis_result (fst (process_upload st (Some f))) = analysis_result st
         \<and> ats_score (fst (process_upload st (Some f))) = ats_score st
         \<and> chat_history (fst (process_upload st (Some f))) = chat_history st
         \<and> \<not> pdf_processed (fst (process_upload st (Some f)))
         \<and> processed_file_name (fst (process_upload st (Some f))) = None"
proof -
  obtain t ev where e: "extract_text_from_pdf (Some f) = (t, ev)"
    by (cases "extract_text_from_pdf (Some f)")
  with assms(2) have e': "extract_text_from_pdf (Some f) = ([], ev)" by simp
  from assms(1) have new: "is_new_file st f" by (simp add: is_new_file_def)
  from process_upload_new_empty [OF new e'] show ?thesis by simp
qed

theorem process_upload_failed_extraction_witness:
  "processed_file_name analysed_session \<noteq> Some (name broken_resume)
   \<and> fst (extract_text_from_pdf (Some broken_resume)) = []
   \<and> fst (process_upload analysed_session (Some broken_resume))
       = \<lparr>job_description = ''Python developer'', resume_text = ''Jane Doe'',
          analysis_result = ''Strong profile.'', ats_score = 75,
          chat_history = [\<lparr>role = ''user'', content = ''hi''\<rparr>,
                          \<lparr>role = ''assistant'', content = ''Hello''\<rparr>],
          pdf_processed = False, processed_file_name = None\<rparr>"
proof -
  have n: "processed_file_name analysed_session \<noteq> Some (name broken_resume)"
    by (simp add: analysed_session_def broken_resume_def)
  have e: "fst (extract_text_from_pdf (Some broken_resume)) = []"
    by (simp add: broken_resume_def extract_text_from_pdf_def)
  from process_upload_failed_extraction [OF n e] n e show ?thesis
    by (simp add: analysed_session_def)
qed

section \<open>Facts about the gateway, the buttons and the chat\<close>

text \<open>What the gateway returns and records, by outcome of the service.\<close>

lemma call_gemini_api_has_text:
  "truthy (API_KEY env) \<Longrightarrow> generate_content env p = Has_text t \<Longrightarrow>
     call_gemini_api env p = (Some t, [Api_call p])"
  by (simp add: call_gemini_api_def)

lemma call_gemini_api_raised:
  "truthy (API_KEY env) \<Longrightarrow> generate_content env p = Raised e \<Longrightarrow>
     fst (call_gemini_api env p) = None"
  by (simp add: call_gemini_api_def)

lemma call_gemini_api_first_event:
  "truthy (API_KEY env) \<Longrightarrow> \<exists>evs. snd (call_gemini_api env p) = Api_call p # evs"
  by (cases "generate_content env p") (simp_all add: call_gemini_api_def)

text \<open>The last five messages, once one more message has been appended.\<close>

lemma last_five_after_append:
  "drop (length (h @ [u]) - 5) (h @ [u]) = drop (length h - 4) h @ [u]"
  by simp

lemma history_context_after_append:
  "history_context (h @ [u]) = join ''\<newline>'' (map render_message (drop (length h - 4) h @ [u]))"
  unfolding history_context_def last_five_after_append ..

text \<open>A chat turn with a resume: the query and one reply are appended.\<close>

lemma chat_turn_result:
  assumes "resume_text st \<noteq> []"
    and "call_gemini_api env
           (chat_prompt (job_description st) (resume_text st)
              (history_context (chat_history st @ [\<lparr>role = ''user'', content = q\<rparr>])) q)
         = (response, ev)"
  shows "chat_turn env st q =
           (st\<lparr>chat_history := chat_history st @
                 [\<lparr>role = ''user'', content = q\<rparr>,
                  \<lparr>role = ''assistant'',
                   content = (case response of
                                Some r \<Rightarrow> if r \<noteq> [] then r else chat_error_reply
                              | None \<Rightarrow> chat_error_reply)\<rparr>]\<rparr>,
            ev)"
  using assms by (simp add: chat_turn_def Let_def split: option.splits)

lemma chat_turn_keeps_result_and_score:
  "analysis_result (fst (chat_turn env st q)) = analysis_result st
   \<and> ats_score (fst (chat_turn env st q)) = ats_score st"
  by (simp add: chat_turn_def Let_def split: option.splits prod.splits)

text \<open>A button whose call returned a text, and one whose call returned nothing.\<close>

lemma summary_btn_completed:
  "resume_text st \<noteq> [] \<Longrightarrow>
   fst (call_gemini_api env (summary_prompt (resume_text st))) = Some r \<Longrightarrow>
   fst (summary_btn env st) = st\<lparr>analysis_result := r, ats_score := 0\<rparr>"
  by (auto simp: summary_btn_def split: prod.splits)

lemma improve_btn_completed:
  "resume_text st \<noteq> [] \<Longrightarrow>
   fst (call_gemini_api env (improve_prompt (resume_text st))) = Some r \<Longrightarrow>
   fst (improve_btn env st) = st\<lparr>analysis_result := r, ats_score := 0\<rparr>"
  by (auto simp: improve_btn_def split: prod.splits)

lemma keywords_btn_completed:
  "resume_text st \<noteq> [] \<Longrightarrow> job_description st \<noteq> [] \<Longrightarrow>
   fst (call_gemini_api env (keywords_prompt (job_description st) (resume_text st))) = Some r \<Longrightarrow>
   fst (keywords_btn env st) = st\<lparr>analysis_result := r, ats_score := 0\<rparr>"
  by (auto simp: keywords_btn_def split: prod.splits)

lemma match_btn_completed:
  "resume_text st \<noteq> [] \<Longrightarrow> job_description st \<noteq> [] \<Longrightarrow>
   call_gemini_api env (match_prompt (job_description st) (resume_text st)) = (Some r, ev) \<Longrightarrow>
   parse_ats_score (Some r) = Inr ((score, explanation), ev') \<Longrightarrow>
   match_btn env st =
     Inr (st\<lparr>ats_score := score,
             analysis_result := ''**ATS Score Explanation:**\<newline>\<newline>'' @ explanation\<rparr>,
          ev @ ev')"
  by (simp add: match_btn_def)

lemma match_btn_raised:
  "resume_text st \<noteq> [] \<Longrightarrow> job_description st \<noteq> [] \<Longrightarrow>
   call_gemini_api env (match_prompt (job_description st) (resume_text st)) = (Some r, ev) \<Longrightarrow>
   parse_ats_score (Some r) = Inl e \<Longrightarrow>
   match_btn env st = Inl (e, st, ev)"
  by (simp add: match_btn_def)

lemma button_not_completed:
  "fst (call_gemini_api env (summary_prompt (resume_text st))) = None \<Longrightarrow>
     fst (summary_btn env st) = st"
  "fst (call_gemini_api env (improve_prompt (resume_text st))) = None \<Longrightarrow>
     fst (improve_btn env st) = st"
  "fst (call_gemini_api env (keywords_prompt (job_description st) (resume_text st))) = None \<Longrightarrow>
     fst (keywords_btn env st) = st"
  "fst (call_gemini_api env (match_prompt (job_description st) (resume_text st))) = None \<Longrightarrow>
     state_of (match_btn env st) = st"
  by (auto simp: summary_btn_def improve_btn_def keywords_btn_def match_btn_def state_of_def
        split: prod.splits)

text \<open>The equations that evaluate a chat turn on a concrete session.\<close>

lemmas chat_eval = chat_turn_def call_gemini_api_def truthy_def history_context_def
  render_message_def chat_prompt_def chat_error_reply_def answering_def Let_def

section \<open>Properties of the chat context\<close>

text \<open>
  Claim C4, as the code has it. In a chat turn on a session with a resume and an API key,
  the first thing recorded is the call of the service, and the context block of its
  prompt is made of the last five messages of the history to which the new user message
  has already been appended: the last four earlier messages and then the new message,
  each rendered as \<^verbatim>\<open>role: content\<close>, joined by newlines. These are at most five lines,
  whatever the length of the history.
\<close>

theorem chat_turn_context_block:
  assumes "resume_text st \<noteq> []" and "truthy (API_KEY env)"
  shows "(\<exists>evs. snd (chat_turn env st q) =
            Api_call
              (chat_prompt (job_description st) (resume_text st)
                 (join ''\<newline>''
                    (map render_message
                       (drop (length (chat_history st) - 4) (chat_history st)
                        @ [\<lparr>role = ''user'', content = q\<rparr>])))
                 q) # evs)
         \<and> length (drop (length (chat_history st) - 4) (chat_history st)
                    @ [\<lparr>role = ''user'', content = q\<rparr>]) \<le> 5"
proof
  let ?u = "\<lparr>role = ''user'', content = q\<rparr>"
  let ?p = "chat_prompt (job_description st) (resume_text st)
              (history_context (chat_history st @ [?u])) q"
  obtain response ev where c: "call_gemini_api env ?p = (response, ev)"
    by (cases "call_gemini_api env ?p")
  from call_gemini_api_first_event [OF assms(2), of ?p] c
  obtain evs where "ev = Api_call ?p # evs" by auto
  with chat_turn_result [OF assms(1) c]
  have "snd (chat_turn env st q) = Api_call ?p # evs" by simp
  then show "\<exists>evs. snd (chat_turn env st q) =
            Api_call
              (chat_prompt (job_description st) (resume_text st)
                 (join ''\<newline>''
                    (map render_message
                       (drop (length (chat_history st) - 4) (chat_history st) @ [?u])))
                 q) # evs"
    unfolding history_context_after_append by blast
next
  show "length (drop (length (chat_history st) - 4) (chat_history st)
                @ [\<lparr>role = ''user'', content = q\<rparr>]) \<le> 5"
    by simp
qed

theorem chat_turn_context_block_witness:
  "resume_text (analysed_session\<lparr>chat_history := twelve_messages\<rparr>) \<noteq> []
   \<and> truthy (API_KEY (answering (Has_text ''Because.'')))
   \<and> snd (chat_turn (answering (Has_text ''Because.''))
             (analysed_session\<lparr>chat_history := twelve_messages\<rparr>) ''Why?'')
       = [Api_call
            (chat_prompt ''Python developer'' ''Jane Doe''
               ''user: m9\<newline>assistant: m10\<newline>user: m11\<newline>assistant: m12\<newline>user: Why?''
               ''Why?'')]"
proof -
  have r: "resume_text (analysed_session\<lparr>chat_history := twelve_messages\<rparr>) \<noteq> []"
    by (simp add: analysed_session_def)
  have k: "truthy (API_KEY (answering (Has_text ''Because.'')))"
    by (simp add: answering_def truthy_def)
  have "snd (chat_turn (answering (Has_text ''Because.''))
             (analysed_session\<lparr>chat_history := twelve_messages\<rparr>) ''Why?'')
       = [Api_call
            (chat_prompt ''Python developer'' ''Jane Doe''
               ''user: m9\<newline>assistant: m10\<newline>user: m11\<newline>assistant: m12\<newline>user: Why?''
               ''Why?'')]"
    using chat_turn_context_block [OF r k, of "''Why?''"]
    by (simp add: analysed_session_def twelve_messages_def chat_eval)
  with r k show ?thesis by blast
qed

text \<open>
  Claim C4 as it is worded fails for twelve earlier messages: the context block of the
  prompt is made of the messages 9 to 12 and the new query \<^verbatim>\<open>Why?\<close>, and the prompt that
  is sent is not the one whose block is made of the last five earlier messages, 8 to 12.
\<close>

theorem chat_turn_twelve_prior_counterexample:
  "history_context (twelve_messages @ [\<lparr>role = ''user'', content = ''Why?''\<rparr>])
     = ''user: m9\<newline>assistant: m10\<newline>user: m11\<newline>assistant: m12\<newline>user: Why?''
   \<and> join ''\<newline>'' (map render_message (drop (length twelve_messages - 5) twelve_messages))
     = ''assistant: m8\<newline>user: m9\<newline>assistant: m10\<newline>user: m11\<newline>assistant: m12''
   \<and> snd (chat_turn (answering (Has_text ''Because.''))
             (analysed_session\<lparr>chat_history := twelve_messages\<rparr>) ''Why?'')
       \<noteq> [Api_call
            (chat_prompt ''Python developer'' ''Jane Doe''
               (join ''\<newline>'' (map render_message (drop (length twelve_messages - 5) twelve_messages)))
               ''Why?'')]"
  by (simp add: analysed_session_def twelve_messages_def chat_eval)

section \<open>Properties of the actions\<close>

text \<open>
  Claim C5, as the code has it. A completed Summary, Improvements or MissingKeywords
  action (the resume, and for the last the job description, is not empty and the gateway
  returns a text \<open>r\<close>) sets \<open>analysis_result\<close> to \<open>r\<close> and \<open>ats_score\<close> to 0, and changes
  nothing else. A completed MatchScore action (the gateway returns a text and the
  interpreter returns a score and an explanation for it) sets \<open>ats_score\<close> to that score and
  \<open>analysis_result\<close> to the heading followed by that explanation; when the interpreter is
  left by an exception instead, so is the handler, and the session state is as it was. A
  chat turn changes neither \<open>analysis_result\<close> nor \<open>ats_score\<close>.
\<close>

theorem completed_actions_result_and_score:
  "(resume_text st \<noteq> [] \<and>
      fst (call_gemini_api env (summary_prompt (resume_text st))) = Some r \<longrightarrow>
      fst (summary_btn env st) = st\<lparr>analysis_result := r, ats_score := 0\<rparr>)
   \<and> (resume_text st \<noteq> [] \<and>
      fst (call_gemini_api env (improve_prompt (resume_text st))) = Some r \<longrightarrow>
      fst (improve_btn env st) = st\<lparr>analysis_result := r, ats_score := 0\<rparr>)
   \<and> (resume_text st \<noteq> [] \<and> job_description st \<noteq> [] \<and>
      fst (call_gemini_api env (keywords_prompt (job_description st) (resume_text st))) = Some r \<longrightarrow>
      fst (keywords_btn env st) = st\<lparr>analysis_result := r, ats_score := 0\<rparr>)
   \<and> (resume_text st \<noteq> [] \<and> job_description st \<noteq> [] \<and>
      fst (call_gemini_api env (match_prompt (job_description st) (resume_text st))) = Some r \<and>
      parse_ats_score (Some r) = Inr ((score, explanation), ev') \<longrightarrow>
      (\<exists>ev. match_btn env st =
         Inr (st\<lparr>ats_score := score,
                 analysis_result := ''**ATS Score Explanation:**\<newline>\<newline>'' @ explanation\<rparr>,
              ev)))
   \<and> (resume_text st \<noteq> [] \<and> job_description st \<noteq> [] \<and>
      fst (call_gemini_api env (match_prompt (job_description st) (resume_text st))) = Some r \<and>
      parse_ats_score (Some r) = Inl e \<longrightarrow>
      (\<exists>ev. match_btn env st = Inl (e, st, ev)))
   \<and> analysis_result (fst (chat_turn env st q)) = analysis_result st
   \<and> ats_score (fst (chat_turn env st q)) = ats_score st"
proof -
  obtain res ev where c: "call_gemini_api env (match_prompt (job_description st) (resume_text st)) = (res, ev)"
    by (cases "call_gemini_api env (match_prompt (job_description st) (resume_text st))")
  have m: "resume_text st \<noteq> [] \<and> job_description st \<noteq> [] \<and>
      fst (call_gemini_api env (match_prompt (job_description st) (resume_text st))) = Some r \<and>
      parse_ats_score (Some r) = Inr ((score, explanation), ev') \<longrightarrow>
      (\<exists>ev. match_btn env st =
         Inr (st\<lparr>ats_score := score,
                 analysis_result := ''**ATS Score Explanation:**\<newline>\<newline>'' @ explanation\<rparr>,
              ev))"
    using c match_btn_completed [of st env r ev score explanation ev'] by auto
  have x: "resume_text st \<noteq> [] \<and> job_description st \<noteq> [] \<and>
      fst (call_gemini_api env (match_prompt (job_description st) (resume_text st))) = Some r \<and>
      parse_ats_score (Some r) = Inl e \<longrightarrow>
      (\<exists>ev. match_btn env st = Inl (e, st, ev))"
    using c match_btn_raised [of st env r ev e] by auto
  show ?thesis
    using summary_btn_completed [of st env r] improve_btn_completed [of st env r]
      keywords_btn_completed [of st env r] m x
      chat_turn_keeps_result_and_score [of env st q]
    by blast
qed

theorem completed_actions_result_and_score_witness:
  "resume_text analysed_session \<noteq> [] \<and> job_description analysed_session \<noteq> []
   \<and> fst (call_gemini_api (answering (Has_text ''Score: 88\<newline>Good fit.''))
            (match_prompt (job_description analysed_session) (resume_text analysed_session)))
       = Some ''Score: 88\<newline>Good fit.''
   \<and> parse_ats_score (Some ''Score: 88\<newline>Good fit.'') = Inr ((88, ''Good fit.''), [])
   \<and> fst (summary_btn (answering (Has_text ''Score: 88\<newline>Good fit.'')) analysed_session)
       = analysed_session\<lparr>analysis_result := ''Score: 88\<newline>Good fit.'', ats_score := 0\<rparr>
   \<and> fst (improve_btn (answering (Has_text ''Score: 88\<newline>Good fit.'')) analysed_session)
       = analysed_session\<lparr>analysis_result := ''Score: 88\<newline>Good fit.'', ats_score := 0\<rparr>
   \<and> fst (keywords_btn (answering (Has_text ''Score: 88\<newline>Good fit.'')) analysed_session)
       = analysed_session\<lparr>analysis_result := ''Score: 88\<newline>Good fit.'', ats_score := 0\<rparr>
   \<and> state_of (match_btn (answering (Has_text ''Score: 88\<newline>Good fit.'')) analysed_session)
       = analysed_session\<lparr>ats_score := 88,
           analysis_result := ''**ATS Score Explanation:**\<newline>\<newline>Good fit.''\<rparr>"
proof -
  let ?env = "answering (Has_text ''Score: 88\<newline>Good fit.'')"
  have r: "resume_text analysed_session \<noteq> []" and j: "job_description analysed_session \<noteq> []"
    by (simp_all add: analysed_session_def)
  have c: "fst (call_gemini_api ?env p) = Some ''Score: 88\<newline>Good fit.''" for p
    by (simp add: call_gemini_api_def answering_def truthy_def)
  have p: "parse_ats_score (Some ''Score: 88\<newline>Good fit.'') = Inr ((88, ''Good fit.''), [])"
    by (simp add: parse_ats_score_def re_match_score_def text_eval)
  from completed_actions_result_and_score
         [of analysed_session ?env "''Score: 88\<newline>Good fit.''" 88 "''Good fit.''" "[]"
             ValueError "''unused''"] r j c p
  show ?thesis by (auto simp: state_of_def)
qed

text \<open>
  Claim C5 as it is worded, that a completed chat turn resets the score to 0, fails: on the
  analysed session, whose score is 75, a chat turn that is answered with \<^verbatim>\<open>Sure.\<close> appends
  the query and the answer to the chat, and the score is still 75.
\<close>

theorem chat_turn_keeps_score_counterexample:
  "chat_turn (answering (Has_text ''Sure.'')) analysed_session ''Is it good?''
     = (analysed_session\<lparr>chat_history :=
          [\<lparr>role = ''user'', content = ''hi''\<rparr>, \<lparr>role = ''assistant'', content = ''Hello''\<rparr>,
           \<lparr>role = ''user'', content = ''Is it good?''\<rparr>,
           \<lparr>role = ''assistant'', content = ''Sure.''\<rparr>]\<rparr>,
        [Api_call (chat_prompt ''Python developer'' ''Jane Doe''
           ''user: hi\<newline>assistant: Hello\<newline>user: Is it good?'' ''Is it good?'')])
   \<and> ats_score (fst (chat_turn (answering (Has_text ''Sure.'')) analysed_session ''Is it good?'')) = 75
   \<and> ats_score (fst (chat_turn (answering (Has_text ''Sure.'')) analysed_session ''Is it good?'')) \<noteq> 0"
  by (simp add: analysed_session_def chat_eval)

text \<open>
  Claim C6. With an empty job description, the Missing Keywords button and the match
  button change nothing in the session state, \<open>analysis_result\<close> and \<open>ats_score\<close>
  included, make no call of the service, and show the warning
  \<^verbatim>\<open>Please enter the Job Description first.\<close> Both handlers run to their end.
\<close>

theorem empty_job_description_refused:
  assumes "job_description st = []"
  shows "keywords_btn env st = (st, [Warning ''Please enter the Job Description first.''])
         \<and> match_btn env st = Inr (st, [Warning ''Please enter the Job Description first.''])
         \<and> (\<forall>p. Api_call p \<notin> set (snd (keywords_btn env st)))
         \<and> (\<forall>p. Api_call p \<notin> set (events_of (match_btn env st)))"
  using assms by (simp add: keywords_btn_def match_btn_def events_of_def)

theorem empty_job_description_refused_witness:
  "job_description (analysed_session\<lparr>job_description := []\<rparr>) = []
   \<and> keywords_btn (answering (Has_text ''Docker, SQL'')) (analysed_session\<lparr>job_description := []\<rparr>)
       = (analysed_session\<lparr>job_description := []\<rparr>,
          [Warning ''Please enter the Job Description first.''])
   \<and> match_btn (answering (Has_text ''Docker, SQL'')) (analysed_session\<lparr>job_description := []\<rparr>)
       = Inr (analysed_session\<lparr>job_description := []\<rparr>,
              [Warning ''Please enter the Job Description first.''])
   \<and> ats_score (state_of (match_btn (answering (Has_text ''Docker, SQL''))
                             (analysed_session\<lparr>job_description := []\<rparr>))) = 75"
proof -
  have j: "job_description (analysed_session\<lparr>job_description := []\<rparr>) = []" by simp
  from empty_job_description_refused [OF j, of "answering (Has_text ''Docker, SQL'')"] j
  show ?thesis by (simp add: analysed_session_def state_of_def)
qed

text \<open>
  Claim C10. When the service answers the prompt of a chat turn with the empty text, the
  chat turn appends the user's query and then the fixed message
  \<^verbatim>\<open>*Sorry, I encountered an error processing your request.*\<close> as the assistant's
  message, and the new state is the one that any service gives which raises an exception
  on that prompt. Each of the four analysis buttons takes the empty text as the answer to
  its own prompt for a result: it stores it (the match button stores the score 0 and the
  bare heading), whereas an exception raised on its prompt leaves the state alone.
\<close>

theorem chat_turn_empty_response:
  assumes "resume_text st \<noteq> []" and "truthy (API_KEY env)"
    and "generate_content env
           (chat_prompt (job_description st) (resume_text st)
              (history_context (chat_history st @ [\<lparr>role = ''user'', content = q\<rparr>])) q)
         = Has_text []"
  shows "chat_turn env st q =
           (st\<lparr>chat_history := chat_history st @
                 [\<lparr>role = ''user'', content = q\<rparr>,
                  \<lparr>role = ''assistant'',
                   content = ''*Sorry, I encountered an error processing your request.*''\<rparr>]\<rparr>,
            [Api_call
               (chat_prompt (job_description st) (resume_text st)
                  (history_context (chat_history st @ [\<lparr>role = ''user'', content = q\<rparr>])) q)])
         \<and> (truthy (API_KEY env') \<and>
             generate_content env'
               (chat_prompt (job_description st) (resume_text st)
                  (history_context (chat_history st @ [\<lparr>role = ''user'', content = q\<rparr>])) q)
             = Raised e \<longrightarrow>
             fst (chat_turn env' st q) = fst (chat_turn env st q))
         \<and> (generate_content env (summary_prompt (resume_text st)) = Has_text [] \<longrightarrow>
             fst (summary_btn env st) = st\<lparr>analysis_result := [], ats_score := 0\<rparr>)
         \<and> (generate_content env (improve_prompt (resume_text st)) = Has_text [] \<longrightarrow>
             fst (improve_btn env st) = st\<lparr>analysis_result := [], ats_score := 0\<rparr>)
         \<and> (job_description st \<noteq> [] \<and>
             generate_content env (keywords_prompt (job_description st) (resume_text st))
               = Has_text [] \<longrightarrow>
             fst (keywords_btn env st) = st\<lparr>analysis_result := [], ats_score := 0\<rparr>)
         \<and> (job_description st \<noteq> [] \<and>
             generate_content env (match_prompt (job_description st) (resume_text st))
               = Has_text [] \<longrightarrow>
             state_of (match_btn env st)
               = st\<lparr>ats_score := 0,
                    analysis_result := ''**ATS Score Explanation:**\<newline>\<newline>''\<rparr>)
         \<and> (generate_content env (summary_prompt (resume_text st)) = Raised e \<longrightarrow>
             fst (summary_btn env st) = st)"
proof -
  let ?p = "chat_prompt (job_description st) (resume_text st)
              (history_context (chat_history st @ [\<lparr>role = ''user'', content = q\<rparr>])) q"
  have c: "call_gemini_api env ?p = (Some [], [Api_call ?p])"
    using assms(2,3) by (rule call_gemini_api_has_text)
  have pe: "parse_ats_score (Some [])
              = Inr ((0, []), [Warning ''Could not parse ATS score from the response.''])"
    by (simp add: parse_ats_score_def re_match_score_def)
  have chat: "chat_turn env st q =
           (st\<lparr>chat_history := chat_history st @
                 [\<lparr>role = ''user'', content = q\<rparr>,
                  \<lparr>role = ''assistant'',
                   content = ''*Sorry, I encountered an error processing your request.*''\<rparr>]\<rparr>,
            [Api_call ?p])"
    using chat_turn_result [OF assms(1) c] by (simp add: chat_error_reply_def)
  have fail: "fst (chat_turn env' st q) = fst (chat_turn env st q)"
    if k: "truthy (API_KEY env')" and g: "generate_content env' ?p = Raised e"
  proof -
    from k g have "fst (call_gemini_api env' ?p) = None"
      by (rule call_gemini_api_raised)
    then obtain ev where "call_gemini_api env' ?p = (None, ev)"
      by (cases "call_gemini_api env' ?p") simp
    from chat_turn_result [OF assms(1) this] chat show ?thesis
      by (simp add: chat_error_reply_def)
  qed
  have s: "fst (summary_btn env st) = st\<lparr>analysis_result := [], ats_score := 0\<rparr>"
    if "generate_content env (summary_prompt (resume_text st)) = Has_text []"
    using assms(1) call_gemini_api_has_text [OF assms(2) that]
    by (simp add: summary_btn_def)
  have i: "fst (improve_btn env st) = st\<lparr>analysis_result := [], ats_score := 0\<rparr>"
    if "generate_content env (improve_prompt (resume_text st)) = Has_text []"
    using assms(1) call_gemini_api_has_text [OF assms(2) that]
    by (simp add: improve_btn_def)
  have kw: "fst (keywords_btn env st) = st\<lparr>analysis_result := [], ats_score := 0\<rparr>"
    if "job_description st \<noteq> []"
      and "generate_content env (keywords_prompt (job_description st) (resume_text st)) = Has_text []"
    using assms(1) that(1) call_gemini_api_has_text [OF assms(2) that(2)]
    by (simp add: keywords_btn_def)
  have ma: "state_of (match_btn env st)
               = st\<lparr>ats_score := 0,
                    analysis_result := ''**ATS Score Explanation:**\<newline>\<newline>''\<rparr>"
    if "job_description st \<noteq> []"
      and "generate_content env (match_prompt (job_description st) (resume_text st)) = Has_text []"
    using match_btn_completed [OF assms(1) that(1) call_gemini_api_has_text [OF assms(2) that(2)] pe]
    by (simp add: state_of_def)
  have ra: "fst (summary_btn env st) = st"
    if "generate_content env (summary_prompt (resume_text st)) = Raised e"
    using call_gemini_api_raised [OF assms(2) that] by (rule button_not_completed(1))
  from chat fail s i kw ma ra show ?thesis by blast
qed

theorem chat_turn_empty_response_witness:
  "resume_text analysed_session \<noteq> [] \<and> truthy (API_KEY silent_in_chat)
   \<and> generate_content silent_in_chat
        (chat_prompt (job_description analysed_session) (resume_text analysed_session)
           (history_context (chat_history analysed_session @ [\<lparr>role = ''user'', content = ''Why?''\<rparr>]))
           ''Why?'')
       = Has_text []
   \<and> generate_content silent_in_chat (summary_prompt (resume_text analysed_session))
       = Has_text ''Fine.''
   \<and> chat_history (fst (chat_turn silent_in_chat analysed_session ''Why?''))
       = [\<lparr>role = ''user'', content = ''hi''\<rparr>, \<lparr>role = ''assistant'', content = ''Hello''\<rparr>,
          \<lparr>role = ''user'', content = ''Why?''\<rparr>,
          \<lparr>role = ''assistant'',
           content = ''*Sorry, I encountered an error processing your request.*''\<rparr>]"
proof -
  let ?p = "chat_prompt (job_description analysed_session) (resume_text analysed_session)
           (history_context (chat_history analysed_session @ [\<lparr>role = ''user'', content = ''Why?''\<rparr>]))
           ''Why?''"
  have r: "resume_text analysed_session \<noteq> []" by (simp add: analysed_session_def)
  have k: "truthy (API_KEY silent_in_chat)" by (simp add: silent_in_chat_def truthy_def)
  have g: "generate_content silent_in_chat ?p = Has_text []"
    by (simp add: silent_in_chat_def chat_prompt_def)
  have o: "generate_content silent_in_chat (summary_prompt (resume_text analysed_session))
             = Has_text ''Fine.''"
    by (simp add: silent_in_chat_def summary_prompt_def)
  have h: "chat_history analysed_session
             = [\<lparr>role = ''user'', content = ''hi''\<rparr>, \<lparr>role = ''assistant'', content = ''Hello''\<rparr>]"
    by (simp add: analysed_session_def)
  from chat_turn_empty_response [OF r k g, where e = "''timeout''" and env' = silent_in_chat]
  have "chat_history (fst (chat_turn silent_in_chat analysed_session ''Why?''))
       = chat_history analysed_session @
         [\<lparr>role = ''user'', content = ''Why?''\<rparr>,
          \<lparr>role = ''assistant'',
           content = ''*Sorry, I encountered an error processing your request.*''\<rparr>]"
    by simp
  with r k g o h show ?thesis by simp
qed

section \<open>Facts about a run of the script\<close>

text \<open>
  The uploader keeps its file from one run to the next. A run in which nothing was clicked
  or sent, with the processed file still in the uploader, leaves the session as it was.
\<close>

lemma rerun_idle:
  assumes "pdf_uploader w = Some f" and "processed_file_name st = Some (name f)"
    and "name f \<noteq> []" and "pdf_processed st" and "jd_input w = job_description st"
    and "\<not> summary_clicked w" "\<not> improve_clicked w" "\<not> keywords_clicked w"
        "\<not> match_clicked w" "chat_text w = None"
  shows "rerun env st w = Inr (st, [Info (''Current resume: '' @ quoted (name f))])"
proof -
  have "st\<lparr>job_description := jd_input w\<rparr> = st" using assms(5) by simp
  moreover have "\<not> is_new_file st f" using assms(2,3) by (simp add: is_new_file_def truthy_def)
  ultimately have "process_upload (st\<lparr>job_description := jd_input w\<rparr>) (pdf_uploader w)
        = (st, [Info (''Current resume: '' @ quoted (name f))])"
    using assms(1) by (simp add: process_upload_same)
  then show ?thesis
    using assms(4,6-10) by (simp add: rerun_def when_clicked_def truthy_def Let_def)
qed

text \<open>Before any resume has been processed, a run shows only the invitation to upload.\<close>

lemma rerun_without_resume:
  "pdf_uploader w = None \<Longrightarrow> \<not> pdf_processed st \<Longrightarrow>
   rerun env st w =
     Inr (st\<lparr>job_description := jd_input w\<rparr>, [Info ''Upload a PDF resume to get started.''])"
  by (simp add: rerun_def process_upload_def Let_def)

text \<open>Every score the interpreter returns lies in 0..100.\<close>

lemma parse_ats_score_range:
  "parse_ats_score r = Inr ((score, explanation), ev) \<Longrightarrow> 0 \<le> score \<and> score \<le> 100"
  by (auto simp: parse_ats_score_def Let_def split: option.splits sum.splits)

text \<open>
  A match whose answer carries a number too long for \<^verbatim>\<open>int\<close> ends the run of the script:
  the handler is left by the exception after the call of the service, and nothing is
  written to the session state.
\<close>

lemma match_btn_too_long:
  assumes "resume_text st \<noteq> []" and "job_description st \<noteq> []" and "truthy (API_KEY env)"
    and "generate_content env (match_prompt (job_description st) (resume_text st))
           = Has_text (''Score:'' @ ws @ ds @ rest)"
    and "list_all is_space ws" and "ds \<noteq> []" and "list_all is_digit ds"
    and "rest = [] \<or> \<not> is_digit (hd rest)"
    and "int_max_str_digits < length ds"
  shows "match_btn env st =
           Inl (ValueError, st, [Api_call (match_prompt (job_description st) (resume_text st))])"
  using match_btn_raised [OF assms(1,2) call_gemini_api_has_text [OF assms(3,4)]
          parse_ats_score_too_long [OF assms(5-9)]] .

end
